theory Spec2Isabelle
  imports Complex_Main "HOL-Library.Product_Lexorder"
begin

section \<open>Time values\<close>

text \<open>
  The instants the program builds itself (the rows of the series, the start of an hour
  built from a date and an hour) fall on whole seconds: such a \<open>timestamp\<close> is the number
  of seconds since 1970-01-01 00:00:00, naive. A \<^verbatim>\<open>date\<close> is the number of days since
  1970-01-01. \<open>date_of\<close>, \<open>hour_of\<close>, \<open>minute_of\<close> and \<open>second_of\<close> are the
  components \<^verbatim>\<open>.date()\<close>, \<^verbatim>\<open>.hour\<close>, \<^verbatim>\<open>.minute\<close> and \<^verbatim>\<open>.second\<close> of an instant on a
  whole second.
\<close>

type_synonym timestamp = int
type_synonym date = int

definition date_of :: "timestamp \<Rightarrow> date" where
  "date_of t = t div 86400"

definition hour_of :: "timestamp \<Rightarrow> int" where
  "hour_of t = (t mod 86400) div 3600"

definition minute_of :: "timestamp \<Rightarrow> int" where
  "minute_of t = (t mod 3600) div 60"

definition second_of :: "timestamp \<Rightarrow> int" where
  "second_of t = t mod 60"

text \<open>\<^verbatim>\<open>pd.to_datetime(date)\<close> and \<^verbatim>\<open>pd.Timestamp(date)\<close>: midnight of the date.\<close>

definition to_datetime :: "date \<Rightarrow> timestamp" where
  "to_datetime d = d * 86400"

text \<open>\<^verbatim>\<open>pd.Timedelta(hours=h)\<close>, \<^verbatim>\<open>pd.Timedelta(minutes=m)\<close>, \<^verbatim>\<open>timedelta(days=i)\<close>.\<close>

definition timedelta_hours :: "int \<Rightarrow> int" where
  "timedelta_hours h = h * 3600"

definition timedelta_minutes :: "int \<Rightarrow> int" where
  "timedelta_minutes m = m * 60"

definition timedelta_days :: "int \<Rightarrow> int" where
  "timedelta_days i = i * 86400"

text \<open>
  The \<^verbatim>\<open>pd.Timestamp\<close> that \<^verbatim>\<open>pd.to_datetime\<close> parses from a click comes from outside and
  has nanosecond resolution: it is its value, the number of nanoseconds since 1970-01-01
  00:00:00. \<open>seconds_of\<close> is the whole second it lies in, which is what its \<^verbatim>\<open>.date()\<close>,
  \<^verbatim>\<open>.hour\<close>, \<^verbatim>\<open>.minute\<close> and \<^verbatim>\<open>.second\<close> read; \<open>nanos_of\<close> is the rest, its
  \<^verbatim>\<open>.microsecond\<close> and \<^verbatim>\<open>.nanosecond\<close> fields together. \<open>of_seconds\<close> is the
  \<^verbatim>\<open>pd.Timestamp\<close> of an instant on a whole second.
\<close>

datatype pd_timestamp = Timestamp_ns int

fun ns_value :: "pd_timestamp \<Rightarrow> int" where
  "ns_value (Timestamp_ns v) = v"

definition seconds_of :: "pd_timestamp \<Rightarrow> timestamp" where
  "seconds_of c = ns_value c div 1000000000"

definition nanos_of :: "pd_timestamp \<Rightarrow> int" where
  "nanos_of c = ns_value c mod 1000000000"

definition of_seconds :: "timestamp \<Rightarrow> pd_timestamp" where
  "of_seconds t = Timestamp_ns (t * 1000000000)"

text \<open>
  \<^verbatim>\<open>c.replace(minute=m, second=s)\<close>: the date and hour of \<open>c\<close>, the given minute and second,
  and the microsecond and nanosecond fields of \<open>c\<close>, which \<^verbatim>\<open>replace\<close> leaves as they are.
\<close>

definition replace_minute_second :: "pd_timestamp \<Rightarrow> int \<Rightarrow> int \<Rightarrow> pd_timestamp" where
  "replace_minute_second c m s =
     Timestamp_ns
       (ns_value (of_seconds (to_datetime (date_of (seconds_of c))
                              + timedelta_hours (hour_of (seconds_of c))
                              + timedelta_minutes m + s))
        + nanos_of c)"

section \<open>The raw series\<close>

text \<open>
  The data frame \<^verbatim>\<open>df\<close> is the list of its rows \<open>(timestamp, value)\<close>, in row order.
  The columns \<^verbatim>\<open>date\<close> and \<^verbatim>\<open>hour\<close> added later are functions of the timestamp
  column (\<open>date_of\<close>, \<open>hour_of\<close>). Values are real numbers.

  \<^verbatim>\<open>np.random.rand()\<close> is the parameter \<open>rand\<close>: \<open>rand k\<close> is the \<open>k\<close>-th draw, in
  the order of the calls. \<^verbatim>\<open>range(num_days)\<close> is empty for a negative \<open>num_days\<close>.
\<close>

type_synonym data_frame = "(timestamp \<times> real) list"

definition generate_mock_data :: "(nat \<Rightarrow> real) \<Rightarrow> timestamp \<Rightarrow> int \<Rightarrow> data_frame" where
  "generate_mock_data rand start_date num_days =
     concat (map (\<lambda>i.
        let date = start_date + timedelta_days (int i) in
        map (\<lambda>second.
          let timestamp = date + int second;
              val = rand (i * 86400 + second) * 100
                    + 50 * sin (real second * 2 * pi / 86400)
          in (timestamp, val)) [0..<86400]) [0..<nat num_days])"

text \<open>\<^verbatim>\<open>datetime(2024, 1, 1)\<close> is day 19723 after 1970-01-01.\<close>

definition start_date :: timestamp where
  "start_date = to_datetime 19723"

definition df :: "(nat \<Rightarrow> real) \<Rightarrow> data_frame" where
  "df rand = generate_mock_data rand start_date 7"

text \<open>A random source that returns the same number at every draw, for concrete runs.\<close>

definition const_rand :: "real \<Rightarrow> nat \<Rightarrow> real" where
  "const_rand r k = r"

section \<open>Aggregates\<close>

text \<open>
  \<^verbatim>\<open>mean()\<close> of a group. A group of \<^verbatim>\<open>groupby\<close> is never empty, so the division by the
  length is never a division by zero there.
\<close>

definition mean :: "real list \<Rightarrow> real" where
  "mean vs = sum_list vs / real (length vs)"

text \<open>
  \<^verbatim>\<open>values.groupby(keys).mean().reset_index()\<close>: one row per distinct key, keys in
  ascending order, with the mean of the values of the rows that carry the key.
\<close>

definition group_values :: "'k list \<Rightarrow> real list \<Rightarrow> 'k \<Rightarrow> real list" where
  "group_values keys vals k = map snd (filter (\<lambda>kv. fst kv = k) (zip keys vals))"

definition groupby_mean :: "('k::linorder) list \<Rightarrow> real list \<Rightarrow> ('k \<times> real) list" where
  "groupby_mean keys vals =
     map (\<lambda>k. (k, mean (group_values keys vals k))) (sort (remdups keys))"

text \<open>\<^verbatim>\<open>daily_avg\<close>: rows \<open>(date, value, timestamp)\<close>.\<close>

definition daily_avg :: "data_frame \<Rightarrow> (date \<times> real \<times> timestamp) list" where
  "daily_avg d =
     map (\<lambda>(dt, v). (dt, v, to_datetime dt))
       (groupby_mean (map (\<lambda>r. date_of (fst r)) d) (map snd d))"

text \<open>\<^verbatim>\<open>hourly_avg\<close>: rows \<open>(date, hour, value, timestamp)\<close>.\<close>

definition hourly_avg :: "data_frame \<Rightarrow> (date \<times> int \<times> real \<times> timestamp) list" where
  "hourly_avg d =
     map (\<lambda>((dt, h), v). (dt, h, v, to_datetime dt + timedelta_hours h))
       (groupby_mean (map (\<lambda>r. (date_of (fst r), hour_of (fst r))) d) (map snd d))"

section \<open>Figures\<close>

text \<open>
  A figure is the dictionary the chart functions return: the x and y columns of its one
  scatter trace, the trace's mode and marker size, and the layout. A title built by an
  f-string is kept as its template together with the values formatted into it.
\<close>

datatype title =
    Weekly_Overview
  | Hourly_Data_for date
  | Minute_Data_for date int
  | Second_level_Data_for date int int

record figure =
  data_x :: "timestamp list"
  data_y :: "real list"
  mode :: string
  marker_size :: nat
  layout_title :: title
  xaxis_title :: string
  tickformat :: "string option"
  dtick :: "nat option"
  yaxis_title :: string

definition create_weekly_chart :: "data_frame \<Rightarrow> figure" where
  "create_weekly_chart d =
     \<lparr> data_x = map (\<lambda>(dt, v, ts). ts) (daily_avg d),
       data_y = map (\<lambda>(dt, v, ts). v) (daily_avg d),
       mode = ''markers+lines'',
       marker_size = 10,
       layout_title = Weekly_Overview,
       xaxis_title = ''Date'',
       tickformat = None,
       dtick = None,
       yaxis_title = ''Average Value'' \<rparr>"

definition create_daily_chart :: "data_frame \<Rightarrow> date \<Rightarrow> figure" where
  "create_daily_chart d dt =
     (let day_data = filter (\<lambda>(dt', h, v, ts). date_of ts = dt) (hourly_avg d) in
      \<lparr> data_x = map (\<lambda>(dt', h, v, ts). ts) day_data,
        data_y = map (\<lambda>(dt', h, v, ts). v) day_data,
        mode = ''markers+lines'',
        marker_size = 8,
        layout_title = Hourly_Data_for dt,
        xaxis_title = ''Time'',
        tickformat = Some ''%H:%M'',
        dtick = Some 3600000,
        yaxis_title = ''Value'' \<rparr>)"

definition create_hourly_chart :: "data_frame \<Rightarrow> date \<Rightarrow> int \<Rightarrow> figure" where
  "create_hourly_chart d dt hour =
     (let start_time = to_datetime dt + timedelta_hours hour;
          end_time = start_time + timedelta_hours 1;
          hour_data = filter (\<lambda>r. fst r \<ge> start_time \<and> fst r < end_time) d in
      \<lparr> data_x = map fst hour_data,
        data_y = map snd hour_data,
        mode = ''markers+lines'',
        marker_size = 6,
        layout_title = Minute_Data_for dt hour,
        xaxis_title = ''Time'',
        tickformat = Some ''%H:%M:%S'',
        dtick = Some 300000,
        yaxis_title = ''Value'' \<rparr>)"

text \<open>
  The start of \<open>create_second_chart\<close> comes from the click and need not fall on a whole
  second; the timestamps of the rows are compared with it as \<^verbatim>\<open>pd.Timestamp\<close>s.
\<close>

definition create_second_chart :: "data_frame \<Rightarrow> pd_timestamp \<Rightarrow> figure" where
  "create_second_chart d start_time =
     (let end_time = Timestamp_ns (ns_value start_time
                                   + ns_value (of_seconds (timedelta_minutes 1)));
          minute_data = filter (\<lambda>r. ns_value (of_seconds (fst r)) \<ge> ns_value start_time \<and>
                                     ns_value (of_seconds (fst r)) < ns_value end_time) d in
      \<lparr> data_x = map fst minute_data,
        data_y = map snd minute_data,
        mode = ''markers+lines'',
        marker_size = 4,
        layout_title =
          Second_level_Data_for (date_of (seconds_of start_time)) (hour_of (seconds_of start_time))
            (minute_of (seconds_of start_time)),
        xaxis_title = ''Time'',
        tickformat = Some ''%H:%M:%S'',
        dtick = Some 1000,
        yaxis_title = ''Value'' \<rparr>)"

section \<open>The callback\<close>

text \<open>
  \<^verbatim>\<open>clickData\<close> is \<^verbatim>\<open>None\<close> or a dictionary whose \<^verbatim>\<open>points\<close> list holds the clicked
  points; \<^verbatim>\<open>point_x\<close> is the \<^verbatim>\<open>x\<close> of a point, already parsed by \<^verbatim>\<open>pd.to_datetime\<close>:
  any instant, on a whole second or not.
  \<^verbatim>\<open>clickData['points'][0]\<close> raises \<^verbatim>\<open>IndexError\<close> on an empty list.
\<close>

datatype error = IndexError

record point =
  point_x :: pd_timestamp

record click_data =
  points :: "point list"

definition clicked_x :: "click_data \<Rightarrow> error + pd_timestamp" where
  "clicked_x cd = (case points cd of [] \<Rightarrow> Inl IndexError | p # _ \<Rightarrow> Inr (point_x p))"

text \<open>\<^verbatim>\<open>prop_id.split('.')[0]\<close>: the text before the first dot.\<close>

definition trigger_id :: "string \<Rightarrow> string" where
  "trigger_id prop_id = takeWhile (\<lambda>c. c \<noteq> CHR ''.'') prop_id"

text \<open>
  \<^verbatim>\<open>update_graph\<close>. The first argument is the data frame the chart functions read, the
  second the \<^verbatim>\<open>prop_id\<close>s of \<^verbatim>\<open>ctx.triggered\<close>. The result is the pair of outputs, the
  figure and the new \<^verbatim>\<open>current-view\<close>.
\<close>

fun update_graph ::
  "data_frame \<Rightarrow> string list \<Rightarrow> click_data option \<Rightarrow> int \<Rightarrow> string \<Rightarrow> error + (figure \<times> string)"
where
  "update_graph d [] clickData n_clicks current_view = Inr (create_weekly_chart d, ''weekly'')"
| "update_graph d (prop_id # triggered) clickData n_clicks current_view =
     (if trigger_id prop_id = ''reset-button'' then Inr (create_weekly_chart d, ''weekly'')
      else if trigger_id prop_id = ''chart'' \<and> clickData \<noteq> None then
        (case clickData of
           None \<Rightarrow> Inr (create_weekly_chart d, ''weekly'')
         | Some cd \<Rightarrow>
             if current_view = ''weekly'' then
               (case clicked_x cd of
                  Inl e \<Rightarrow> Inl e
                | Inr clicked_datetime \<Rightarrow>
                    Inr (create_daily_chart d (date_of (seconds_of clicked_datetime)),
                         ''daily''))
             else if current_view = ''daily'' then
               (case clicked_x cd of
                  Inl e \<Rightarrow> Inl e
                | Inr clicked_datetime \<Rightarrow>
                    Inr (create_hourly_chart d (date_of (seconds_of clicked_datetime))
                           (hour_of (seconds_of clicked_datetime)), ''hourly''))
             else if current_view = ''hourly'' then
               (case clicked_x cd of
                  Inl e \<Rightarrow> Inl e
                | Inr clicked_datetime \<Rightarrow>
                    Inr (create_second_chart d
                           (replace_minute_second clicked_datetime 0 0), ''second''))
             else Inr (create_weekly_chart d, ''weekly''))
      else Inr (create_weekly_chart d, ''weekly''))"

text \<open>A click event carrying the timestamp \<open>t\<close>: the first point of the payload has x = t.\<close>

definition select :: "pd_timestamp \<Rightarrow> point list \<Rightarrow> click_data option" where
  "select t others = Some \<lparr> points = \<lparr> point_x = t \<rparr> # others \<rparr>"

section \<open>Navigation\<close>

lemma trigger_id_chart: "trigger_id ''chart.clickData'' = ''chart''"
  by (simp add: trigger_id_def)

lemma trigger_id_reset: "trigger_id ''reset-button.n_clicks'' = ''reset-button''"
  by (simp add: trigger_id_def)

lemma update_graph_select:
  "update_graph d (''chart.clickData'' # triggered) (select t others) n_clicks current_view =
     (if current_view = ''weekly'' then
        Inr (create_daily_chart d (date_of (seconds_of t)), ''daily'')
      else if current_view = ''daily'' then
        Inr (create_hourly_chart d (date_of (seconds_of t)) (hour_of (seconds_of t)), ''hourly'')
      else if current_view = ''hourly'' then
        Inr (create_second_chart d (replace_minute_second t 0 0), ''second'')
      else Inr (create_weekly_chart d, ''weekly''))"
  by (simp add: trigger_id_def select_def clicked_x_def)

lemma components_mod: "0 \<le> h \<Longrightarrow> h < 24 \<Longrightarrow> 0 \<le> r \<Longrightarrow> r < 3600 \<Longrightarrow>
    (dt * 86400 + h * 3600 + r) div 86400 = (dt::int) \<and>
    (dt * 86400 + h * 3600 + r) mod 86400 = h * 3600 + r"
proof -
  assume h: "0 \<le> h" "h < 24" "0 \<le> r" "r < 3600"
  have eq: "dt * 86400 + h * 3600 + r = (h * 3600 + r) + dt * 86400" by simp
  have bounds: "0 \<le> h * 3600 + r" "h * 3600 + r < 86400" using h by auto
  have "(h * 3600 + r + dt * 86400) div 86400 = dt"
    using bounds by (simp add: div_pos_pos_trivial)
  moreover have "(h * 3600 + r + dt * 86400) mod 86400 = h * 3600 + r"
    using bounds by (simp add: mod_pos_pos_trivial)
  ultimately show ?thesis unfolding eq by simp
qed

lemma hour_of_range: "0 \<le> hour_of t \<and> hour_of t < 24"
proof -
  have "0 \<le> t mod 86400" "t mod 86400 < 86400" by simp_all
  then show ?thesis unfolding hour_of_def by linarith
qed

lemma date_of_window:
  assumes "0 \<le> h" "h < 24" "to_datetime dt + timedelta_hours h \<le> ts"
    and "ts < to_datetime dt + timedelta_hours h + w" "0 \<le> w" "w \<le> 3600"
  shows "date_of ts = dt \<and> hour_of ts = h"
proof -
  define r where "r = ts - (dt * 86400 + h * 3600)"
  have r: "0 \<le> r" "r < 3600" and ts: "ts = dt * 86400 + h * 3600 + r"
    using assms by (auto simp: r_def to_datetime_def timedelta_hours_def)
  have c: "ts div 86400 = dt" "ts mod 86400 = h * 3600 + r"
    using components_mod [OF assms(1,2) r] unfolding ts by simp_all
  have "(h * 3600 + r) div 3600 = h"
    using r by (simp add: div_pos_pos_trivial)
  then show ?thesis by (simp add: date_of_def hour_of_def c)
qed

lemma top_of_hour_components:
  "date_of (to_datetime (date_of t) + timedelta_hours (hour_of t)) = date_of t \<and>
   hour_of (to_datetime (date_of t) + timedelta_hours (hour_of t)) = hour_of t \<and>
   minute_of (to_datetime (date_of t) + timedelta_hours (hour_of t)) = 0 \<and>
   second_of (to_datetime (date_of t) + timedelta_hours (hour_of t)) = 0"
proof -
  let ?s = "to_datetime (date_of t) + timedelta_hours (hour_of t)"
  have "date_of ?s = date_of t \<and> hour_of ?s = hour_of t"
    by (rule date_of_window [where w = 3600]) (use hour_of_range [of t] in simp_all)
  moreover have "?s = (date_of t * 1440 + hour_of t * 60) * 60"
    by (simp add: to_datetime_def timedelta_hours_def)
  then have "?s mod 60 = 0" by simp
  moreover have "?s = (date_of t * 24 + hour_of t) * 3600"
    by (simp add: to_datetime_def timedelta_hours_def algebra_simps)
  then have "?s mod 3600 = 0" by simp
  ultimately show ?thesis by (simp add: minute_of_def second_of_def)
qed

lemma nanos_of_range: "0 \<le> nanos_of c \<and> nanos_of c < 1000000000"
  by (simp add: nanos_of_def)

lemma seconds_of_of_seconds: "seconds_of (of_seconds t) = t" "nanos_of (of_seconds t) = 0"
  by (simp_all add: seconds_of_def nanos_of_def of_seconds_def)

lemma replace_top_of_hour:
  "ns_value (replace_minute_second c 0 0)
     = (to_datetime (date_of (seconds_of c)) + timedelta_hours (hour_of (seconds_of c)))
         * 1000000000 + nanos_of c"
  by (simp add: replace_minute_second_def timedelta_minutes_def of_seconds_def)

lemma ns_div_mod:
  assumes "0 \<le> f" "f < 1000000000"
  shows "(x * 1000000000 + f) div 1000000000 = (x::int)"
    and "(x * 1000000000 + f) mod 1000000000 = f"
proof -
  have "(f + x * 1000000000) div 1000000000 = x"
    using assms by (simp add: div_pos_pos_trivial)
  then show "(x * 1000000000 + f) div 1000000000 = x" by (simp only: add.commute)
  have "(f + x * 1000000000) mod 1000000000 = f"
    using assms by (simp add: mod_pos_pos_trivial)
  then show "(x * 1000000000 + f) mod 1000000000 = f" by (simp only: add.commute)
qed

lemma replace_seconds:
  "seconds_of (replace_minute_second c 0 0)
     = to_datetime (date_of (seconds_of c)) + timedelta_hours (hour_of (seconds_of c))"
  "nanos_of (replace_minute_second c 0 0) = nanos_of c"
proof -
  have f: "0 \<le> nanos_of c" "nanos_of c < 1000000000" using nanos_of_range [of c] by simp_all
  show "seconds_of (replace_minute_second c 0 0)
     = to_datetime (date_of (seconds_of c)) + timedelta_hours (hour_of (seconds_of c))"
    unfolding seconds_of_def [of "replace_minute_second c 0 0"] replace_top_of_hour
    by (rule ns_div_mod(1) [OF f])
  show "nanos_of (replace_minute_second c 0 0) = nanos_of c"
    unfolding nanos_of_def [of "replace_minute_second c 0 0"] replace_top_of_hour
    by (rule ns_div_mod(2) [OF f])
qed

lemma replace_components:
  "date_of (seconds_of (replace_minute_second t 0 0)) = date_of (seconds_of t) \<and>
   hour_of (seconds_of (replace_minute_second t 0 0)) = hour_of (seconds_of t) \<and>
   minute_of (seconds_of (replace_minute_second t 0 0)) = 0 \<and>
   second_of (seconds_of (replace_minute_second t 0 0)) = 0"
  by (simp only: replace_seconds(1) top_of_hour_components)

section \<open>Drill-down transitions\<close>

text \<open>
  C1. A click on the chart carrying the timestamp \<open>t\<close>, on a whole second or not, leads
  from the weekly view to the daily view of the date of \<open>t\<close>, from the daily view to the
  hourly view of the date and hour of \<open>t\<close>, and from the hourly view to the second-level
  view that starts at an instant with the date and hour of \<open>t\<close> and minute 0, second 0:
  the clicked minute and second are discarded.
\<close>

theorem select_transitions:
  "update_graph d (''chart.clickData'' # triggered) (select t others) n_clicks ''weekly''
     = Inr (create_daily_chart d (date_of (seconds_of t)), ''daily'') \<and>
   update_graph d (''chart.clickData'' # triggered) (select t others) n_clicks ''daily''
     = Inr (create_hourly_chart d (date_of (seconds_of t)) (hour_of (seconds_of t)),
            ''hourly'') \<and>
   update_graph d (''chart.clickData'' # triggered) (select t others) n_clicks ''hourly''
     = Inr (create_second_chart d (replace_minute_second t 0 0), ''second'') \<and>
   date_of (seconds_of (replace_minute_second t 0 0)) = date_of (seconds_of t) \<and>
   hour_of (seconds_of (replace_minute_second t 0 0)) = hour_of (seconds_of t) \<and>
   minute_of (seconds_of (replace_minute_second t 0 0)) = 0 \<and>
   second_of (seconds_of (replace_minute_second t 0 0)) = 0"
  using replace_components [of t] by (simp add: update_graph_select del: update_graph.simps)

text \<open>
  C3, as the code has it. A click on the chart while the current view is the leaf view
  \<^verbatim>\<open>'second'\<close> matches no branch of the callback and reaches its last line: the result
  is the weekly chart and the view \<^verbatim>\<open>'weekly'\<close>, whatever the payload of the click.
\<close>

theorem select_in_second_view_resets:
  "update_graph d (''chart.clickData'' # triggered) (Some cd) n_clicks ''second''
     = Inr (create_weekly_chart d, ''weekly'')"
  by (simp add: trigger_id_def)

text \<open>
  C3 as stated fails: after a click at 2024-01-03 14:00:30 in the second-level view the
  view is \<^verbatim>\<open>'weekly'\<close>, not \<^verbatim>\<open>'second'\<close>.
\<close>

theorem select_in_second_view_counterexample:
  "update_graph (df (const_rand (1/2))) [''chart.clickData'']
     (select (of_seconds (to_datetime 19725 + 50430)) []) 0 ''second''
     = Inr (create_weekly_chart (df (const_rand (1/2))), ''weekly'') \<and>
   ''weekly'' \<noteq> ''second''"
  by (simp add: trigger_id_def select_def)

text \<open>
  C4, as the code has it. A trigger that is not a click with a payload in one of the views
  \<^verbatim>\<open>'weekly'\<close>, \<^verbatim>\<open>'daily'\<close>, \<^verbatim>\<open>'hourly'\<close> yields the weekly chart and the view
  \<^verbatim>\<open>'weekly'\<close>: the current view is not kept.
\<close>

theorem other_events_reset:
  assumes "trigger_id prop_id \<noteq> ''chart'' \<or> clickData = None \<or>
           current_view \<notin> {''weekly'', ''daily'', ''hourly''}"
  shows "update_graph d (prop_id # triggered) clickData n_clicks current_view
           = Inr (create_weekly_chart d, ''weekly'')"
  using assms by (auto split: option.splits)

theorem other_events_reset_witness:
  "(None :: click_data option) = None \<and>
   update_graph (df (const_rand (1/2))) [''chart.clickData''] None 1 ''daily''
     = Inr (create_weekly_chart (df (const_rand (1/2))), ''weekly'')"
  using other_events_reset [of "''chart.clickData''" None "''daily''" "df (const_rand (1/2))" "[]" 1]
  by simp

text \<open>
  C4 as stated fails: a chart trigger without a click payload in the daily view leaves the
  view \<^verbatim>\<open>'weekly'\<close>, not \<^verbatim>\<open>'daily'\<close>.
\<close>

theorem other_events_counterexample:
  "update_graph (df (const_rand (1/2))) [''chart.clickData''] None 1 ''daily''
     = Inr (create_weekly_chart (df (const_rand (1/2))), ''weekly'') \<and>
   ''weekly'' \<noteq> ''daily''"
  by (simp add: trigger_id_def)

section \<open>Reset\<close>

text \<open>
  C5. A trigger of the reset button yields the view \<^verbatim>\<open>'weekly'\<close> from every current
  view and with every click payload, and its figure is the figure of the initial call, the
  one with nothing triggered.
\<close>

theorem reset_yields_initial_view:
  "update_graph d (''reset-button.n_clicks'' # triggered) clickData n_clicks current_view
     = Inr (create_weekly_chart d, ''weekly'') \<and>
   update_graph d [] None 0 ''weekly'' = Inr (create_weekly_chart d, ''weekly'')"
  by (simp add: trigger_id_def)

section \<open>The generated series\<close>

text \<open>The nested loops of \<^verbatim>\<open>generate_mock_data\<close> append one row per second, day after day.\<close>

lemma concat_blocks:
  "0 < c \<Longrightarrow> concat (map (\<lambda>i. map (F i) [0..<c]) [0..<m]) = map (\<lambda>k. F (k div c) (k mod c)) [0..<m * c]"
proof (induction m)
  case 0
  then show ?case by simp
next
  case (Suc m)
  have split: "[0..<Suc m * c] = [0..<m * c] @ [m * c..<m * c + c]"
    using upt_add_eq_append [of 0 "m * c" c] by (simp add: add.commute)
  have "map (\<lambda>k. F (k div c) (k mod c)) [m * c..<m * c + c] = map (F m) [0..<c]"
    using Suc.prems by (intro nth_equalityI) (simp_all add: add.commute)
  then have "map (\<lambda>k. F (k div c) (k mod c)) [0..<Suc m * c]
      = map (\<lambda>k. F (k div c) (k mod c)) [0..<m * c] @ map (F m) [0..<c]"
    by (simp only: split map_append)
  then show ?case using Suc by simp
qed

lemma generate_mock_data_flat:
  "generate_mock_data rand s n =
     map (\<lambda>k. (s + int k, rand k * 100 + 50 * sin (real (k mod 86400) * 2 * pi / 86400)))
       [0..<nat n * 86400]"
proof -
  have "k div 86400 * 86400 + k mod 86400 = k" for k :: nat by simp
  moreover have "int (k div 86400) * 86400 + int (k mod 86400) = int k" for k :: nat
    by (metis div_mult_mod_eq of_nat_add of_nat_mult of_nat_numeral)
  ultimately show ?thesis
    unfolding generate_mock_data_def Let_def timedelta_days_def
    by (simp add: concat_blocks [where c = 86400] add.assoc)
qed

lemma filter_upt_window:
  "hi \<le> N \<Longrightarrow> filter (\<lambda>k. lo \<le> k \<and> k < hi) [0..<N] = [lo..<hi]"
  by (rule sorted_distinct_set_unique) (auto intro: sorted_filter [where f = id, simplified])

lemma generate_mock_data_length:
  "length (generate_mock_data rand s n) = nat n * 86400"
  by (simp add: generate_mock_data_flat)

lemma generate_mock_data_timestamps:
  "map fst (generate_mock_data rand s n) = map (\<lambda>k. s + int k) [0..<nat n * 86400]"
  by (simp add: generate_mock_data_flat comp_def)

lemma generated_window:
  assumes "lo \<le> hi" "hi \<le> nat n * 86400"
  shows "filter (\<lambda>r. s + int lo \<le> fst r \<and> fst r < s + int hi) (generate_mock_data rand s n)
         = take (hi - lo) (drop lo (generate_mock_data rand s n))"
proof -
  let ?G = "\<lambda>k. (s + int k, rand k * 100 + 50 * sin (real (k mod 86400) * 2 * pi / 86400))"
  let ?N = "nat n * 86400"
  have "filter (\<lambda>r. s + int lo \<le> fst r \<and> fst r < s + int hi) (map ?G [0..<?N])
        = map ?G (filter (\<lambda>k. lo \<le> k \<and> k < hi) [0..<?N])"
    by (simp add: filter_map comp_def)
  also have "\<dots> = map ?G [lo..<hi]"
    using assms(2) by (simp only: filter_upt_window)
  also have "[lo..<hi] = take (hi - lo) (drop lo [0..<?N])"
    using assms by (simp add: drop_upt take_upt)
  finally show ?thesis
    by (simp only: generate_mock_data_flat take_map drop_map)
qed

lemma window_timestamps:
  assumes "lo + w \<le> nat n * 86400"
  shows "map fst (take w (drop lo (generate_mock_data rand s n)))
         = map (\<lambda>k. s + int lo + int k) [0..<w]"
proof -
  have "map fst (take w (drop lo (generate_mock_data rand s n)))
        = take w (drop lo (map fst (generate_mock_data rand s n)))"
    by (simp add: take_map drop_map)
  also have "\<dots> = take w (drop lo (map (\<lambda>k. s + int k) [0..<nat n * 86400]))"
    by (simp only: generate_mock_data_timestamps)
  also have "\<dots> = map (\<lambda>k. s + int k) [lo..<lo + w]"
    using assms by (simp add: take_map drop_map drop_upt take_upt)
  also have "\<dots> = map (\<lambda>k. s + int lo + int k) [0..<w]"
    by (intro nth_equalityI) simp_all
  finally show ?thesis .
qed

lemma date_of_eq_iff:
  "date_of t = dt \<longleftrightarrow> to_datetime dt \<le> t \<and> t < to_datetime dt + 86400"
proof -
  have "t div 86400 = dt \<longleftrightarrow> dt * 86400 \<le> t \<and> t < dt * 86400 + 86400"
    by linarith
  then show ?thesis by (simp add: date_of_def to_datetime_def)
qed

lemma date_hour_of_eq_iff:
  assumes "0 \<le> h" "h < 24"
  shows "date_of t = dt \<and> hour_of t = h \<longleftrightarrow>
         to_datetime dt + timedelta_hours h \<le> t \<and> t < to_datetime dt + timedelta_hours h + 3600"
proof
  assume "to_datetime dt + timedelta_hours h \<le> t \<and> t < to_datetime dt + timedelta_hours h + 3600"
  then show "date_of t = dt \<and> hour_of t = h"
    using date_of_window [OF assms, of dt t 3600] by simp
next
  assume a: "date_of t = dt \<and> hour_of t = h"
  have "t = (t div 86400) * 86400 + t mod 86400" by simp
  moreover have "t mod 86400 = (t mod 86400 div 3600) * 3600 + t mod 86400 mod 3600" by simp
  moreover have "0 \<le> t mod 86400 mod 3600" "t mod 86400 mod 3600 < 3600" by simp_all
  ultimately show "to_datetime dt + timedelta_hours h \<le> t \<and> t < to_datetime dt + timedelta_hours h + 3600"
    using a unfolding date_of_def hour_of_def to_datetime_def timedelta_hours_def by linarith
qed

lemma midnight_start: "s mod 86400 = 0 \<Longrightarrow> s = to_datetime (date_of s)"
proof -
  assume "s mod 86400 = 0"
  moreover have "s div 86400 * 86400 + s mod 86400 = s" by (rule div_mult_mod_eq)
  ultimately show ?thesis by (simp add: to_datetime_def date_of_def)
qed

lemma in_span_offset:
  assumes "s mod 86400 = 0" "date_of s \<le> dt" "dt < date_of s + n" "0 \<le> r" "r + int w \<le> 86400"
  shows "to_datetime dt + r = s + int (nat ((dt - date_of s) * 86400 + r))"
    and "nat ((dt - date_of s) * 86400 + r) + w \<le> nat n * 86400"
proof -
  have s: "s = date_of s * 86400" using midnight_start [OF assms(1)] by (simp add: to_datetime_def)
  have nn: "0 \<le> (dt - date_of s) * 86400 + r" using assms(2,4) by simp
  show "to_datetime dt + r = s + int (nat ((dt - date_of s) * 86400 + r))"
    using nn s by (simp add: to_datetime_def algebra_simps)
  have "0 \<le> n" using assms(2,3) by simp
  moreover have "(dt - date_of s) * 86400 + r + int w \<le> n * 86400"
    using assms(3,5) by simp
  ultimately show "nat ((dt - date_of s) * 86400 + r) + w \<le> nat n * 86400"
    using nn by (simp add: nat_le_iff nat_mult_distrib)
qed

lemma generated_window_in_span:
  assumes "s mod 86400 = 0" "date_of s \<le> dt" "dt < date_of s + n" "0 \<le> r" "r + int w \<le> 86400"
  shows "filter (\<lambda>x. to_datetime dt + r \<le> fst x \<and> fst x < to_datetime dt + r + int w)
           (generate_mock_data rand s n)
         = take w (drop (nat ((dt - date_of s) * 86400 + r)) (generate_mock_data rand s n))"
proof -
  let ?lo = "nat ((dt - date_of s) * 86400 + r)"
  note off = in_span_offset [OF assms]
  have "filter (\<lambda>x. s + int ?lo \<le> fst x \<and> fst x < s + int (?lo + w)) (generate_mock_data rand s n)
        = take (?lo + w - ?lo) (drop ?lo (generate_mock_data rand s n))"
    by (rule generated_window) (use off(2) in simp_all)
  then show ?thesis by (simp add: off(1) add.assoc)
qed

lemma generated_window_timestamps:
  assumes "s mod 86400 = 0" "date_of s \<le> dt" "dt < date_of s + n" "0 \<le> r" "r + int w \<le> 86400"
  shows "map fst (filter (\<lambda>x. to_datetime dt + r \<le> fst x \<and> fst x < to_datetime dt + r + int w)
           (generate_mock_data rand s n))
         = map (\<lambda>k. to_datetime dt + r + int k) [0..<w]"
proof -
  let ?lo = "nat ((dt - date_of s) * 86400 + r)"
  have "map fst (take w (drop ?lo (generate_mock_data rand s n)))
        = map (\<lambda>k. s + int ?lo + int k) [0..<w]"
    by (rule window_timestamps) (rule in_span_offset(2) [OF assms])
  then show ?thesis
    by (simp only: generated_window_in_span [OF assms] in_span_offset(1) [OF assms, symmetric])
qed

section \<open>Raw views\<close>

lemma create_hourly_chart_data:
  "data_x (create_hourly_chart d dt h) =
     map fst (filter (\<lambda>r. to_datetime dt + timedelta_hours h \<le> fst r \<and>
                          fst r < to_datetime dt + timedelta_hours h + 3600) d)"
  "data_y (create_hourly_chart d dt h) =
     map snd (filter (\<lambda>r. to_datetime dt + timedelta_hours h \<le> fst r \<and>
                          fst r < to_datetime dt + timedelta_hours h + 3600) d)"
  by (simp_all add: create_hourly_chart_def Let_def timedelta_hours_def)

lemma create_second_chart_data:
  "data_x (create_second_chart d st)
     = map fst (filter (\<lambda>r. ns_value st \<le> fst r * 1000000000 \<and>
                          fst r * 1000000000 < ns_value st + 60000000000) d)"
  "data_y (create_second_chart d st)
     = map snd (filter (\<lambda>r. ns_value st \<le> fst r * 1000000000 \<and>
                          fst r * 1000000000 < ns_value st + 60000000000) d)"
  by (simp_all add: create_second_chart_def Let_def timedelta_minutes_def of_seconds_def)

lemma ns_window:
  assumes "0 \<le> f" "f < 1000000000"
  shows "(a * 1000000000 + f \<le> ts * 1000000000 \<and>
          ts * 1000000000 < a * 1000000000 + f + 60000000000)
         \<longleftrightarrow> (a + (if f = 0 then 0 else 1) \<le> (ts::int) \<and>
              ts < a + (if f = 0 then 0 else 1) + 60)"
  using assms by (auto split: if_splits)

lemma second_chart_rows:
  "filter (\<lambda>r. ns_value (replace_minute_second c 0 0) \<le> fst r * 1000000000 \<and>
               fst r * 1000000000 < ns_value (replace_minute_second c 0 0) + 60000000000) d
   = filter (\<lambda>r. to_datetime (date_of (seconds_of c)) + timedelta_hours (hour_of (seconds_of c))
                  + (if nanos_of c = 0 then 0 else 1) \<le> fst r \<and>
                fst r < to_datetime (date_of (seconds_of c)) + timedelta_hours (hour_of (seconds_of c))
                        + (if nanos_of c = 0 then 0 else 1) + 60) d"
  using nanos_of_range [of c] by (simp only: replace_top_of_hour ns_window)

text \<open>
  C8. On a series generated from a midnight, for a date of the span and an hour from 0 to
  23, the hourly view holds the 3600 samples of that hour: its timestamps are the start of
  the hour and the 3599 seconds after it, so the first is the start of the hour and the last
  is earlier than the start plus one hour.
\<close>

theorem hourly_view_window:
  assumes "s mod 86400 = 0" "date_of s \<le> dt" "dt < date_of s + n" "0 \<le> h" "h < 24"
  shows "data_x (create_hourly_chart (generate_mock_data rand s n) dt h)
           = map (\<lambda>k. to_datetime dt + timedelta_hours h + int k) [0..<3600] \<and>
         hd (data_x (create_hourly_chart (generate_mock_data rand s n) dt h))
           = to_datetime dt + timedelta_hours h \<and>
         last (data_x (create_hourly_chart (generate_mock_data rand s n) dt h))
           < to_datetime dt + timedelta_hours h + timedelta_hours 1 \<and>
         length (data_x (create_hourly_chart (generate_mock_data rand s n) dt h)) = 3600 \<and>
         length (data_y (create_hourly_chart (generate_mock_data rand s n) dt h)) = 3600"
proof -
  let ?st = "to_datetime dt + timedelta_hours h"
  have r: "0 \<le> timedelta_hours h" "timedelta_hours h + int 3600 \<le> 86400"
    using assms(4,5) by (simp_all add: timedelta_hours_def)
  have x: "data_x (create_hourly_chart (generate_mock_data rand s n) dt h)
           = map (\<lambda>k. ?st + int k) [0..<3600]"
    using generated_window_timestamps [OF assms(1-3) r, of rand]
    by (simp add: create_hourly_chart_data)
  have "length (data_y (create_hourly_chart (generate_mock_data rand s n) dt h))
        = length (data_x (create_hourly_chart (generate_mock_data rand s n) dt h))"
    by (simp add: create_hourly_chart_data)
  moreover have "hd (map (\<lambda>k. ?st + int k) [0..<3600]) = ?st"
    by (simp add: hd_map)
  moreover have "last (map (\<lambda>k. ?st + int k) [0..<3600]) = ?st + 3599"
    by (simp add: last_map)
  ultimately show ?thesis unfolding x by (simp add: timedelta_hours_def)
qed


lemma start_date_midnight: "start_date mod 86400 = 0" "date_of start_date = 19723"
  by (simp_all add: start_date_def to_datetime_def date_of_def)

theorem hourly_view_window_witness:
  "data_x (create_hourly_chart (df (const_rand (1/2))) 19725 14)
     = map (\<lambda>k. to_datetime 19725 + timedelta_hours 14 + int k) [0..<3600] \<and>
   hd (data_x (create_hourly_chart (df (const_rand (1/2))) 19725 14))
     = to_datetime 19725 + timedelta_hours 14 \<and>
   last (data_x (create_hourly_chart (df (const_rand (1/2))) 19725 14))
     < to_datetime 19725 + timedelta_hours 14 + timedelta_hours 1 \<and>
   length (data_x (create_hourly_chart (df (const_rand (1/2))) 19725 14)) = 3600 \<and>
   length (data_y (create_hourly_chart (df (const_rand (1/2))) 19725 14)) = 3600"
proof -
  have span: "date_of start_date \<le> 19725" "19725 < date_of start_date + 7"
    by (simp_all add: start_date_midnight(2))
  have hour: "(0::int) \<le> 14" "(14::int) < 24" by simp_all
  show ?thesis
    unfolding df_def by (rule hourly_view_window [OF start_date_midnight(1) span hour])
qed







section \<open>Invariant of the generated series\<close>

lemma strict_sorted_timestamps: "sorted_wrt (<) (map (\<lambda>k. s + int k) [0..<N])"
  by (simp add: sorted_wrt_map sorted_wrt_mono_rel [OF _ sorted_wrt_upt])

lemma day_samples_generated:
  assumes "s mod 86400 = 0" "date_of s \<le> dt" "dt < date_of s + n"
  shows "filter (\<lambda>r. date_of (fst r) = dt) (generate_mock_data rand s n)
         = take 86400 (drop (nat ((dt - date_of s) * 86400)) (generate_mock_data rand s n))"
  using generated_window_in_span [OF assms, of 0 86400 rand]
  by (simp add: date_of_eq_iff)

lemma hour_samples_generated:
  assumes "s mod 86400 = 0" "date_of s \<le> dt" "dt < date_of s + n" "0 \<le> h" "h < 24"
  shows "filter (\<lambda>r. date_of (fst r) = dt \<and> hour_of (fst r) = h) (generate_mock_data rand s n)
         = take 3600 (drop (nat ((dt - date_of s) * 86400 + h * 3600)) (generate_mock_data rand s n))"
proof -
  have r: "0 \<le> h * 3600" "h * 3600 + int 3600 \<le> 86400" using assms(4,5) by simp_all
  show ?thesis
    using generated_window_in_span [OF assms(1-3) r, of rand]
    by (simp add: date_hour_of_eq_iff [OF assms(4,5)] timedelta_hours_def)
qed

lemma generated_dates:
  assumes "s mod 86400 = 0" "0 \<le> n"
  shows "date_of ` set (map fst (generate_mock_data rand s n)) = {date_of s..<date_of s + n}"
proof (intro equalityI subsetI)
  fix dt assume "dt \<in> date_of ` set (map fst (generate_mock_data rand s n))"
  then obtain k where k: "k < nat n * 86400" "dt = date_of (s + int k)"
    by (auto simp: generate_mock_data_timestamps)
  have "s + int k = int k + date_of s * 86400"
    using midnight_start [OF assms(1)] by (simp add: to_datetime_def)
  then have "date_of (s + int k) = int k div 86400 + date_of s"
    by (simp add: date_of_def)
  moreover have "0 \<le> int k div 86400" by simp
  moreover have "int k < n * 86400" using k(1) assms(2) by linarith
  then have "int k div 86400 < n" by linarith
  ultimately show "dt \<in> {date_of s..<date_of s + n}" using k(2) by simp
next
  fix dt assume "dt \<in> {date_of s..<date_of s + n}"
  then have span: "date_of s \<le> dt" "dt < date_of s + n" by simp_all
  define lo where "lo = nat ((dt - date_of s) * 86400 + 0)"
  have "to_datetime dt = s + int lo" "lo < nat n * 86400"
    using in_span_offset [OF assms(1) span, of 0 1] unfolding lo_def by simp_all
  then have "to_datetime dt \<in> set (map fst (generate_mock_data rand s n))"
    by (simp add: generate_mock_data_timestamps)
  moreover have "date_of (to_datetime dt) = dt" by (simp add: date_of_def to_datetime_def)
  ultimately show "dt \<in> date_of ` set (map fst (generate_mock_data rand s n))"
    by (metis imageI)
qed

text \<open>
  C10. From a start at midnight and a number of days that is not negative,
  \<^verbatim>\<open>generate_mock_data\<close> returns \<open>num_days * 86400\<close> rows; the timestamp of row \<open>k\<close> is the
  start plus \<open>k\<close> seconds, so the timestamps increase strictly, second by second, without
  gap or duplicate; the dates they cover are the \<open>num_days\<close> consecutive dates from the
  start date, and each of these dates has 86400 rows.
\<close>

theorem generated_series_invariant:
  assumes "s mod 86400 = 0" "0 \<le> n"
  shows "int (length (generate_mock_data rand s n)) = n * 86400 \<and>
         map fst (generate_mock_data rand s n) = map (\<lambda>k. s + int k) [0..<nat n * 86400] \<and>
         sorted_wrt (<) (map fst (generate_mock_data rand s n)) \<and>
         distinct (map fst (generate_mock_data rand s n)) \<and>
         date_of ` set (map fst (generate_mock_data rand s n)) = {date_of s..<date_of s + n} \<and>
         (\<forall>dt \<in> {date_of s..<date_of s + n}.
            length (filter (\<lambda>r. date_of (fst r) = dt) (generate_mock_data rand s n)) = 86400)"
proof -
  have len: "int (length (generate_mock_data rand s n)) = n * 86400"
    using assms(2) by (simp add: generate_mock_data_length)
  have srt: "sorted_wrt (<) (map fst (generate_mock_data rand s n))"
    by (simp only: generate_mock_data_timestamps strict_sorted_timestamps)
  have dst: "distinct (map fst (generate_mock_data rand s n))"
    using srt by (simp add: strict_sorted_iff)
  have days: "length (filter (\<lambda>r. date_of (fst r) = dt) (generate_mock_data rand s n)) = 86400"
    if "dt \<in> {date_of s..<date_of s + n}" for dt
  proof -
    have span: "date_of s \<le> dt" "dt < date_of s + n" using that by simp_all
    show ?thesis
      using in_span_offset(2) [OF assms(1) span, of 0 86400]
      by (simp add: day_samples_generated [OF assms(1) span] generate_mock_data_length)
  qed
  show ?thesis
    using len srt dst days generated_dates [OF assms, of rand]
    by (simp only: generate_mock_data_timestamps [of rand s n, symmetric] simp_thms) blast
qed

theorem generated_series_invariant_witness:
  "int (length (df (const_rand (1/2)))) = 7 * 86400 \<and>
   map fst (df (const_rand (1/2))) = map (\<lambda>k. start_date + int k) [0..<nat 7 * 86400] \<and>
   sorted_wrt (<) (map fst (df (const_rand (1/2)))) \<and>
   distinct (map fst (df (const_rand (1/2)))) \<and>
   date_of ` set (map fst (df (const_rand (1/2)))) = {19723..<19723 + 7} \<and>
   length (filter (\<lambda>r. date_of (fst r) = 19725) (df (const_rand (1/2)))) = 86400"
proof -
  have n: "(0::int) \<le> 7" by simp
  have in_span: "(19725::int) \<in> {19723..<19723 + 7}" by simp
  show ?thesis
    using generated_series_invariant [OF start_date_midnight(1) n, of "const_rand (1/2)"] in_span
    unfolding df_def start_date_midnight(2) by blast
qed

section \<open>Daily and hourly aggregates\<close>

lemma group_values_rows:
  "group_values (map kf d) (map snd d) k = map snd (filter (\<lambda>r. kf r = k) d)"
  by (induction d) (simp_all add: group_values_def)

lemma filter_eq_distinct:
  "distinct xs \<Longrightarrow> filter (\<lambda>y. y = k) xs = (if k \<in> set xs then [k] else [])"
  by (induction xs) auto

lemma groupby_mean_row:
  "filter (\<lambda>km. fst km = k) (groupby_mean keys vals)
   = (if k \<in> set keys then [(k, mean (group_values keys vals k))] else [])"
  by (simp add: groupby_mean_def filter_map comp_def filter_eq_distinct)

lemma daily_avg_row:
  "filter (\<lambda>(dt', v, ts). dt' = dt) (daily_avg d)
   = (if dt \<in> date_of ` fst ` set d
      then [(dt, mean (map snd (filter (\<lambda>r. date_of (fst r) = dt) d)), to_datetime dt)]
      else [])"
proof -
  have "filter (\<lambda>(dt', v, ts). dt' = dt) (daily_avg d)
        = map (\<lambda>(dt, v). (dt, v, to_datetime dt))
            (filter (\<lambda>km. fst km = dt)
               (groupby_mean (map (\<lambda>r. date_of (fst r)) d) (map snd d)))"
    by (simp add: daily_avg_def filter_map comp_def case_prod_beta)
  then show ?thesis
    by (simp add: groupby_mean_row group_values_rows image_image)
qed

lemma hourly_avg_row:
  "filter (\<lambda>(dt', h', v, ts). dt' = dt \<and> h' = h) (hourly_avg d)
   = (if (dt, h) \<in> (\<lambda>r. (date_of (fst r), hour_of (fst r))) ` set d
      then [(dt, h, mean (map snd (filter (\<lambda>r. date_of (fst r) = dt \<and> hour_of (fst r) = h) d)),
             to_datetime dt + timedelta_hours h)]
      else [])"
proof -
  have "filter (\<lambda>(dt', h', v, ts). dt' = dt \<and> h' = h) (hourly_avg d)
        = map (\<lambda>((dt, h), v). (dt, h, v, to_datetime dt + timedelta_hours h))
            (filter (\<lambda>km. fst km = (dt, h))
               (groupby_mean (map (\<lambda>r. (date_of (fst r), hour_of (fst r))) d) (map snd d)))"
    by (simp add: hourly_avg_def filter_map comp_def case_prod_beta prod_eq_iff)
  then show ?thesis
    by (simp add: groupby_mean_row group_values_rows)
qed

text \<open>
  C6. On a series generated from a midnight, \<^verbatim>\<open>daily_avg\<close> has exactly one row for each
  date of the span; its value is the arithmetic mean of the values of exactly the rows
  whose timestamp has that date, and there are 86400 such rows.
\<close>

theorem daily_aggregate_mean:
  assumes "s mod 86400 = 0" "date_of s \<le> dt" "dt < date_of s + n"
  shows "filter (\<lambda>(dt', v, ts). dt' = dt) (daily_avg (generate_mock_data rand s n))
           = [(dt, mean (map snd (filter (\<lambda>r. date_of (fst r) = dt)
                                    (generate_mock_data rand s n))),
               to_datetime dt)] \<and>
         length (filter (\<lambda>r. date_of (fst r) = dt) (generate_mock_data rand s n)) = 86400"
proof -
  have n: "0 \<le> n" using assms(2,3) by simp
  have "dt \<in> date_of ` set (map fst (generate_mock_data rand s n))"
    using assms(2,3) by (simp only: generated_dates [OF assms(1) n]) simp
  then have "dt \<in> date_of ` fst ` set (generate_mock_data rand s n)" by simp
  moreover have "length (filter (\<lambda>r. date_of (fst r) = dt) (generate_mock_data rand s n)) = 86400"
    using in_span_offset(2) [OF assms, of 0 86400]
    by (simp add: day_samples_generated [OF assms] generate_mock_data_length)
  ultimately show ?thesis by (simp only: daily_avg_row if_True simp_thms)
qed


theorem daily_aggregate_mean_witness:
  "filter (\<lambda>(dt', v, ts). dt' = 19725) (daily_avg (df (const_rand (1/2))))
     = [(19725, mean (map snd (filter (\<lambda>r. date_of (fst r) = 19725) (df (const_rand (1/2))))),
         to_datetime 19725)] \<and>
   length (filter (\<lambda>r. date_of (fst r) = 19725) (df (const_rand (1/2)))) = 86400"
proof -
  have span: "date_of start_date \<le> 19725" "19725 < date_of start_date + 7"
    by (simp_all add: start_date_midnight(2))
  show ?thesis
    unfolding df_def by (rule daily_aggregate_mean [OF start_date_midnight(1) span])
qed

lemma hourly_key_date:
  assumes "k \<in> set (map (\<lambda>r. (date_of (fst r), hour_of (fst r))) d)"
  shows "date_of (to_datetime (fst k) + timedelta_hours (snd k)) = fst k"
proof -
  obtain r where k: "k = (date_of (fst r), hour_of (fst r))" using assms by auto
  have "date_of (to_datetime (fst k) + timedelta_hours (snd k)) = fst k \<and>
        hour_of (to_datetime (fst k) + timedelta_hours (snd k)) = snd k"
    by (rule date_of_window [where w = 3600]) (use hour_of_range [of "fst r"] in \<open>simp_all add: k\<close>)
  then show ?thesis by simp
qed

lemma daily_chart_day_data:
  "filter (\<lambda>(dt', h, v, ts). date_of ts = dt) (hourly_avg d)
   = map (\<lambda>k. (fst k, snd k,
                 mean (map snd (filter (\<lambda>r. date_of (fst r) = fst k \<and> hour_of (fst r) = snd k) d)),
                 to_datetime (fst k) + timedelta_hours (snd k)))
       (filter (\<lambda>k. fst k = dt)
          (sort (remdups (map (\<lambda>r. (date_of (fst r), hour_of (fst r))) d))))"
proof -
  let ?keys = "map (\<lambda>r. (date_of (fst r), hour_of (fst r))) d"
  have "filter (\<lambda>k. date_of (to_datetime (fst k) + timedelta_hours (snd k)) = dt)
          (sort (remdups ?keys))
        = filter (\<lambda>k. fst k = dt) (sort (remdups ?keys))"
    by (rule filter_cong [OF refl]) (simp add: hourly_key_date [of _ d])
  then show ?thesis
    by (simp add: hourly_avg_def groupby_mean_def filter_map comp_def case_prod_beta
          group_values_rows prod_eq_iff)
qed

lemma daily_chart_empty:
  assumes "dt \<notin> date_of ` fst ` set d"
  shows "filter (\<lambda>(dt', h, v, ts). date_of ts = dt) (hourly_avg d) = []"
proof -
  have "filter (\<lambda>k. fst k = dt)
          (sort (remdups (map (\<lambda>r. (date_of (fst r), hour_of (fst r))) d))) = []"
    using assms by (auto simp: filter_empty_conv)
  then show ?thesis by (simp only: daily_chart_day_data list.map)
qed

lemma hourly_keys_sorted: "sorted (map (\<lambda>h. (dt::int, int h)) [0..<m])"
  by (simp add: sorted_map sorted_wrt_mono_rel [OF _ sorted_wrt_upt])

lemma hourly_keys_distinct: "distinct (map (\<lambda>h. (dt::int, int h)) [0..<m])"
  by (simp add: distinct_map inj_on_def)

lemma hour_rows_generated_length:
  assumes "s mod 86400 = 0" "date_of s \<le> dt" "dt < date_of s + n" "0 \<le> h" "h < 24"
  shows "length (filter (\<lambda>r. date_of (fst r) = dt \<and> hour_of (fst r) = h)
                   (generate_mock_data rand s n)) = 3600"
proof -
  have r: "0 \<le> h * 3600" "h * 3600 + int 3600 \<le> 86400" using assms(4,5) by simp_all
  show ?thesis
    using in_span_offset(2) [OF assms(1-3) r]
    by (simp add: hour_samples_generated [OF assms] generate_mock_data_length)
qed

lemma generated_day_keys:
  assumes "s mod 86400 = 0" "date_of s \<le> dt" "dt < date_of s + n"
  shows "filter (\<lambda>k. fst k = dt)
           (sort (remdups (map (\<lambda>r. (date_of (fst r), hour_of (fst r)))
                             (generate_mock_data rand s n))))
         = map (\<lambda>h. (dt, int h)) [0..<24]"
proof (rule sorted_distinct_set_unique)
  let ?D = "generate_mock_data rand s n"
  let ?keys = "map (\<lambda>r. (date_of (fst r), hour_of (fst r))) ?D"
  show "sorted (filter (\<lambda>k. fst k = dt) (sort (remdups ?keys)))"
    by (rule sorted_filter [where f = id, simplified]) simp
  show "distinct (filter (\<lambda>k. fst k = dt) (sort (remdups ?keys)))" by simp
  show "sorted (map (\<lambda>h. (dt, int h)) [0..<24])" by (rule hourly_keys_sorted)
  show "distinct (map (\<lambda>h. (dt, int h)) [0..<24])" by (rule hourly_keys_distinct)
  show "set (filter (\<lambda>k. fst k = dt) (sort (remdups ?keys))) = set (map (\<lambda>h. (dt, int h)) [0..<24])"
  proof (intro equalityI subsetI)
    fix k assume "k \<in> set (filter (\<lambda>k. fst k = dt) (sort (remdups ?keys)))"
    then obtain r where k: "k = (dt, hour_of (fst r))" by auto
    have "nat (hour_of (fst r)) < 24" "int (nat (hour_of (fst r))) = hour_of (fst r)"
      using hour_of_range [of "fst r"] by linarith+
    then have "(dt, hour_of (fst r)) \<in> (\<lambda>h. (dt, int h)) ` {0..<24}"
      by (metis atLeastLessThan_iff imageI zero_le)
    then show "k \<in> set (map (\<lambda>h. (dt, int h)) [0..<24])" by (simp add: k)
  next
    fix k assume "k \<in> set (map (\<lambda>h. (dt, int h)) [0..<24])"
    then obtain h where h: "h < 24" "k = (dt, int h)" by auto
    have hr: "(0::int) \<le> int h" "int h < 24" using h(1) by simp_all
    have "length (filter (\<lambda>r. date_of (fst r) = dt \<and> hour_of (fst r) = int h) ?D) = 3600"
      by (rule hour_rows_generated_length [OF assms hr])
    then have "filter (\<lambda>r. date_of (fst r) = dt \<and> hour_of (fst r) = int h) ?D \<noteq> []"
      by auto
    then obtain r where "r \<in> set ?D" "date_of (fst r) = dt" "hour_of (fst r) = int h"
      by (auto simp: filter_empty_conv)
    then have "(dt, int h) \<in> set ?keys" by force
    then show "k \<in> set (filter (\<lambda>k. fst k = dt) (sort (remdups ?keys)))"
      by (simp add: h(2))
  qed
qed

lemma sum_list_blocks:
  "sum_list (take (m * c) ys) = (\<Sum>h\<leftarrow>[0..<m]. sum_list (take c (drop (h * c) ys)))"
proof (induction m)
  case 0
  then show ?case by simp
next
  case (Suc m)
  have "take (m * c + c) ys = take (m * c) ys @ take c (drop (m * c) ys)"
    by (rule take_add)
  moreover have "Suc m * c = m * c + c" by simp
  ultimately have "take (Suc m * c) ys = take (m * c) ys @ take c (drop (m * c) ys)"
    by (simp only:)
  then show ?case using Suc by simp
qed


lemma sum_list_divide: "(\<Sum>h\<leftarrow>l. f h / c) = (\<Sum>h\<leftarrow>l. f h) / (c::real)"
  by (induction l) (simp_all add: add_divide_distrib)

lemma mean_of_block_means:
  assumes "m * c \<le> length ys"
  shows "mean (map (\<lambda>h. mean (take c (drop (h * c) ys))) [0..<m]) = mean (take (m * c) ys)"
proof -
  have len: "length (take c (drop (h * c) ys)) = c" if "h < m" for h
  proof -
    have "Suc h * c \<le> m * c" using that by (intro mult_le_mono1) simp
    then show ?thesis using assms by simp
  qed
  have block: "mean (take c (drop (h * c) ys)) = sum_list (take c (drop (h * c) ys)) / real c"
    if "h < m" for h
    unfolding mean_def len [OF that] ..
  have eq: "map (\<lambda>h. mean (take c (drop (h * c) ys))) [0..<m]
        = map (\<lambda>h. sum_list (take c (drop (h * c) ys)) / real c) [0..<m]"
    by (rule map_cong [OF refl]) (simp add: block)
  have "mean (map (\<lambda>h. mean (take c (drop (h * c) ys))) [0..<m])
        = mean (map (\<lambda>h. sum_list (take c (drop (h * c) ys)) / real c) [0..<m])"
    by (simp only: eq)
  also have "\<dots> = sum_list (take (m * c) ys) / real c / real m"
    by (simp add: mean_def sum_list_divide sum_list_blocks)
  also have "\<dots> = sum_list (take (m * c) ys) / real (m * c)"
    by (simp add: mult.commute)
  also have "\<dots> = mean (take (m * c) ys)"
    using assms by (simp add: mean_def min_absorb2)
  finally show ?thesis .
qed

lemma day_values_generated:
  assumes "s mod 86400 = 0" "date_of s \<le> dt" "dt < date_of s + n"
  shows "map snd (filter (\<lambda>r. date_of (fst r) = dt) (generate_mock_data rand s n))
         = take (24 * 3600)
             (drop (nat ((dt - date_of s) * 86400)) (map snd (generate_mock_data rand s n)))"
  by (simp add: day_samples_generated [OF assms] take_map drop_map)

lemma hour_values_generated:
  assumes "s mod 86400 = 0" "date_of s \<le> dt" "dt < date_of s + n" "h < 24"
  shows "map snd (filter (\<lambda>r. date_of (fst r) = dt \<and> hour_of (fst r) = int h)
                    (generate_mock_data rand s n))
         = take 3600 (drop (h * 3600)
             (drop (nat ((dt - date_of s) * 86400)) (map snd (generate_mock_data rand s n))))"
proof -
  have hr: "(0::int) \<le> int h" "int h < 24" using assms(4) by simp_all
  have "nat ((dt - date_of s) * 86400 + int h * 3600) = h * 3600 + nat ((dt - date_of s) * 86400)"
    using assms(2) by (simp add: nat_add_distrib nat_mult_distrib)
  then show ?thesis
    by (simp add: hour_samples_generated [OF assms(1-3) hr] take_map drop_map)
qed

lemma create_daily_chart_data:
  "data_x (create_daily_chart d dt)
     = map (\<lambda>(dt', h, v, ts). ts) (filter (\<lambda>(dt', h, v, ts). date_of ts = dt) (hourly_avg d))"
  "data_y (create_daily_chart d dt)
     = map (\<lambda>(dt', h, v, ts). v) (filter (\<lambda>(dt', h, v, ts). date_of ts = dt) (hourly_avg d))"
  by (simp_all add: create_daily_chart_def Let_def)

lemma daily_chart_generated:
  assumes "s mod 86400 = 0" "date_of s \<le> dt" "dt < date_of s + n"
  shows "data_y (create_daily_chart (generate_mock_data rand s n) dt)
         = map (\<lambda>h. mean (map snd (filter (\<lambda>r. date_of (fst r) = dt \<and> hour_of (fst r) = int h)
                                        (generate_mock_data rand s n)))) [0..<24]"
    and "data_x (create_daily_chart (generate_mock_data rand s n) dt)
         = map (\<lambda>h. to_datetime dt + timedelta_hours (int h)) [0..<24]"
  by (simp_all add: create_daily_chart_data daily_chart_day_data generated_day_keys [OF assms]
        comp_def)

lemma hourly_means_mean:
  assumes "s mod 86400 = 0" "date_of s \<le> dt" "dt < date_of s + n"
  shows "mean (data_y (create_daily_chart (generate_mock_data rand s n) dt))
         = mean (map snd (filter (\<lambda>r. date_of (fst r) = dt) (generate_mock_data rand s n)))"
proof -
  let ?ys = "drop (nat ((dt - date_of s) * 86400)) (map snd (generate_mock_data rand s n))"
  have "data_y (create_daily_chart (generate_mock_data rand s n) dt)
        = map (\<lambda>h. mean (take 3600 (drop (h * 3600) ?ys))) [0..<24]"
    unfolding daily_chart_generated(1) [OF assms]
    by (rule map_cong [OF refl]) (simp add: hour_values_generated [OF assms])
  moreover have "24 * 3600 \<le> length ?ys"
    using in_span_offset(2) [OF assms, of 0 86400] by (simp add: generate_mock_data_length)
  ultimately show ?thesis
    by (simp only: mean_of_block_means day_values_generated [OF assms])
qed

text \<open>
  C7. On a series generated from a midnight, for a date of the span and each hour from 0 to
  23, \<^verbatim>\<open>hourly_avg\<close> has exactly one row; its value is the mean of the values of the rows
  of that date and hour, and there are 3600 of them. The daily view of the date shows these
  24 hourly means in the order of the hours, and their mean is the value of the date in
  \<^verbatim>\<open>daily_avg\<close>. Values are real numbers here, so the equality is exact.
\<close>

theorem hourly_aggregate_mean:
  assumes "s mod 86400 = 0" "date_of s \<le> dt" "dt < date_of s + n"
  shows "(\<forall>h \<in> {0..<24}.
            filter (\<lambda>(dt', h', v, ts). dt' = dt \<and> h' = h) (hourly_avg (generate_mock_data rand s n))
              = [(dt, h,
                  mean (map snd (filter (\<lambda>r. date_of (fst r) = dt \<and> hour_of (fst r) = h)
                                   (generate_mock_data rand s n))),
                  to_datetime dt + timedelta_hours h)] \<and>
            length (filter (\<lambda>r. date_of (fst r) = dt \<and> hour_of (fst r) = h)
                      (generate_mock_data rand s n)) = 3600) \<and>
         data_y (create_daily_chart (generate_mock_data rand s n) dt)
           = map (\<lambda>h. mean (map snd (filter (\<lambda>r. date_of (fst r) = dt \<and> hour_of (fst r) = int h)
                                          (generate_mock_data rand s n)))) [0..<24] \<and>
         filter (\<lambda>(dt', v, ts). dt' = dt) (daily_avg (generate_mock_data rand s n))
           = [(dt, mean (data_y (create_daily_chart (generate_mock_data rand s n) dt)),
               to_datetime dt)]"
proof -
  let ?D = "generate_mock_data rand s n"
  have hours: "filter (\<lambda>(dt', h', v, ts). dt' = dt \<and> h' = h) (hourly_avg ?D)
              = [(dt, h, mean (map snd (filter (\<lambda>r. date_of (fst r) = dt \<and> hour_of (fst r) = h) ?D)),
                  to_datetime dt + timedelta_hours h)] \<and>
            length (filter (\<lambda>r. date_of (fst r) = dt \<and> hour_of (fst r) = h) ?D) = 3600"
    if "h \<in> {0..<24}" for h
  proof -
    have hr: "0 \<le> h" "h < 24" using that by simp_all
    have len: "length (filter (\<lambda>r. date_of (fst r) = dt \<and> hour_of (fst r) = h) ?D) = 3600"
      by (rule hour_rows_generated_length [OF assms hr])
    then have "filter (\<lambda>r. date_of (fst r) = dt \<and> hour_of (fst r) = h) ?D \<noteq> []" by auto
    then obtain r where "r \<in> set ?D" "date_of (fst r) = dt" "hour_of (fst r) = h"
      by (auto simp: filter_empty_conv)
    then have "(dt, h) \<in> (\<lambda>r. (date_of (fst r), hour_of (fst r))) ` set ?D" by force
    then show ?thesis using len by (simp only: hourly_avg_row if_True simp_thms)
  qed
  have n: "0 \<le> n" using assms(2,3) by simp
  have "dt \<in> date_of ` set (map fst ?D)"
    using assms(2,3) by (simp only: generated_dates [OF assms(1) n]) simp
  then have "dt \<in> date_of ` fst ` set ?D" by simp
  then have daily: "filter (\<lambda>(dt', v, ts). dt' = dt) (daily_avg ?D)
      = [(dt, mean (data_y (create_daily_chart ?D dt)), to_datetime dt)]"
    by (simp only: daily_avg_row if_True hourly_means_mean [OF assms])
  show ?thesis using hours daily daily_chart_generated(1) [OF assms, of rand] by blast
qed


theorem hourly_aggregate_mean_witness:
  "filter (\<lambda>(dt', h', v, ts). dt' = 19725 \<and> h' = 14) (hourly_avg (df (const_rand (1/2))))
     = [(19725, 14,
         mean (map snd (filter (\<lambda>r. date_of (fst r) = 19725 \<and> hour_of (fst r) = 14)
                          (df (const_rand (1/2))))),
         to_datetime 19725 + timedelta_hours 14)] \<and>
   length (filter (\<lambda>r. date_of (fst r) = 19725 \<and> hour_of (fst r) = 14)
             (df (const_rand (1/2)))) = 3600 \<and>
   data_y (create_daily_chart (df (const_rand (1/2))) 19725)
     = map (\<lambda>h. mean (map snd (filter (\<lambda>r. date_of (fst r) = 19725 \<and> hour_of (fst r) = int h)
                                    (df (const_rand (1/2)))))) [0..<24] \<and>
   filter (\<lambda>(dt', v, ts). dt' = 19725) (daily_avg (df (const_rand (1/2))))
     = [(19725, mean (data_y (create_daily_chart (df (const_rand (1/2))) 19725)),
         to_datetime 19725)]"
proof -
  have span: "date_of start_date \<le> 19725" "19725 < date_of start_date + 7"
    by (simp_all add: start_date_midnight(2))
  have hour: "(14::int) \<in> {0..<24}" by simp
  show ?thesis
    using hourly_aggregate_mean [OF start_date_midnight(1) span, of "const_rand (1/2)"] hour
    unfolding df_def by blast
qed

section \<open>Selections outside the span\<close>

lemma window_empty:
  assumes "dt \<notin> date_of ` fst ` set d" "0 \<le> h" "h < 24" "0 \<le> w" "w \<le> 3600"
  shows "filter (\<lambda>r. to_datetime dt + timedelta_hours h \<le> fst r \<and>
                      fst r < to_datetime dt + timedelta_hours h + w) d = []"
proof -
  have "date_of (fst r) = dt"
    if "to_datetime dt + timedelta_hours h \<le> fst r" "fst r < to_datetime dt + timedelta_hours h + w"
    for r
    using date_of_window [OF assms(2,3) that assms(4,5)] by simp
  then have "\<not> (to_datetime dt + timedelta_hours h \<le> fst r \<and>
               fst r < to_datetime dt + timedelta_hours h + w)" if "r \<in> set d" for r
    using assms(1) that by (metis imageI)
  then show ?thesis by (simp only: filter_empty_conv) blast
qed

lemma second_window_empty:
  assumes "date_of (seconds_of t) \<notin> date_of ` fst ` set d"
  shows "filter (\<lambda>r. to_datetime (date_of (seconds_of t)) + timedelta_hours (hour_of (seconds_of t))
                      + (if nanos_of t = 0 then 0 else 1) \<le> fst r \<and>
                    fst r < to_datetime (date_of (seconds_of t))
                            + timedelta_hours (hour_of (seconds_of t))
                            + (if nanos_of t = 0 then 0 else 1) + 60) d = []"
proof -
  let ?top = "to_datetime (date_of (seconds_of t)) + timedelta_hours (hour_of (seconds_of t))"
  note hr = hour_of_range [of "seconds_of t", THEN conjunct1]
    hour_of_range [of "seconds_of t", THEN conjunct2]
  have "filter (\<lambda>r. ?top \<le> fst r \<and> fst r < ?top + 61) d = []"
    by (rule window_empty [OF assms hr]) simp_all
  then have wide: "\<not> (?top \<le> fst r \<and> fst r < ?top + 61)" if "r \<in> set d" for r
    using that by (simp only: filter_empty_conv) blast
  have "\<not> (?top + (if nanos_of t = 0 then 0 else 1) \<le> fst r \<and>
            fst r < ?top + (if nanos_of t = 0 then 0 else 1) + 60)" if r: "r \<in> set d" for r
  proof
    assume "?top + (if nanos_of t = 0 then 0 else 1) \<le> fst r \<and>
            fst r < ?top + (if nanos_of t = 0 then 0 else 1) + 60"
    then have "?top \<le> fst r \<and> fst r < ?top + 61"
      by (cases "nanos_of t = 0") simp_all
    with wide [OF r] show False ..
  qed
  then show ?thesis by (simp only: filter_empty_conv) blast
qed

lemma out_of_span_views:
  assumes "date_of (seconds_of t) \<notin> date_of ` fst ` set d"
  shows "data_x (create_daily_chart d (date_of (seconds_of t))) = []"
    and "data_y (create_daily_chart d (date_of (seconds_of t))) = []"
    and "data_x (create_hourly_chart d (date_of (seconds_of t)) (hour_of (seconds_of t))) = []"
    and "data_y (create_hourly_chart d (date_of (seconds_of t)) (hour_of (seconds_of t))) = []"
    and "data_x (create_second_chart d (replace_minute_second t 0 0)) = []"
    and "data_y (create_second_chart d (replace_minute_second t 0 0)) = []"
proof -
  note hr = hour_of_range [of "seconds_of t", THEN conjunct1]
    hour_of_range [of "seconds_of t", THEN conjunct2]
  show "data_x (create_daily_chart d (date_of (seconds_of t))) = []"
    and "data_y (create_daily_chart d (date_of (seconds_of t))) = []"
    by (simp_all add: create_daily_chart_data daily_chart_empty [OF assms])
  show "data_x (create_hourly_chart d (date_of (seconds_of t)) (hour_of (seconds_of t))) = []"
    and "data_y (create_hourly_chart d (date_of (seconds_of t)) (hour_of (seconds_of t))) = []"
    using window_empty [OF assms hr, of 3600] by (simp_all add: create_hourly_chart_data)
  show "data_x (create_second_chart d (replace_minute_second t 0 0)) = []"
    and "data_y (create_second_chart d (replace_minute_second t 0 0)) = []"
    by (simp_all only: create_second_chart_data second_chart_rows
          second_window_empty [OF assms] list.map)
qed

text \<open>
  C2, as the code has it. When the date of the clicked timestamp is not the date of any row
  of the series, the callback raises nothing and does not return to the weekly view: it
  drills down as for any click, to the daily, hourly or second-level view, and the chart
  it returns has no points.
\<close>

theorem out_of_span_selection:
  assumes "date_of (seconds_of t) \<notin> date_of ` fst ` set d"
  shows "update_graph d (''chart.clickData'' # triggered) (select t others) n_clicks ''weekly''
           = Inr (create_daily_chart d (date_of (seconds_of t)), ''daily'') \<and>
         data_x (create_daily_chart d (date_of (seconds_of t))) = [] \<and>
         data_y (create_daily_chart d (date_of (seconds_of t))) = [] \<and>
         update_graph d (''chart.clickData'' # triggered) (select t others) n_clicks ''daily''
           = Inr (create_hourly_chart d (date_of (seconds_of t)) (hour_of (seconds_of t)),
                  ''hourly'') \<and>
         data_x (create_hourly_chart d (date_of (seconds_of t)) (hour_of (seconds_of t))) = [] \<and>
         data_y (create_hourly_chart d (date_of (seconds_of t)) (hour_of (seconds_of t))) = [] \<and>
         update_graph d (''chart.clickData'' # triggered) (select t others) n_clicks ''hourly''
           = Inr (create_second_chart d (replace_minute_second t 0 0), ''second'') \<and>
         data_x (create_second_chart d (replace_minute_second t 0 0)) = [] \<and>
         data_y (create_second_chart d (replace_minute_second t 0 0)) = []"
  by (simp add: update_graph_select out_of_span_views [OF assms] del: update_graph.simps)

lemma before_span:
  "date_of (seconds_of (of_seconds (to_datetime 19722))) \<notin> date_of ` fst ` set (df rand)"
proof -
  have "date_of ` set (map fst (df rand)) = {19723..<19723 + 7}"
    unfolding df_def using generated_dates [OF start_date_midnight(1), of 7 rand]
    by (simp add: start_date_midnight(2))
  moreover have "date_of (to_datetime 19722) = 19722"
    by (simp add: date_of_def to_datetime_def)
  ultimately show ?thesis by (simp add: seconds_of_of_seconds(1))
qed

theorem out_of_span_selection_witness:
  "update_graph (df (const_rand (1/2))) [''chart.clickData''] (select (of_seconds (to_datetime 19722)) [])
      0
      ''weekly''
     = Inr (create_daily_chart (df (const_rand (1/2))) (date_of (to_datetime 19722)), ''daily'') \<and>
   data_x (create_daily_chart (df (const_rand (1/2))) (date_of (to_datetime 19722))) = [] \<and>
   data_y (create_daily_chart (df (const_rand (1/2))) (date_of (to_datetime 19722))) = []"
  using out_of_span_selection [OF before_span, of "const_rand (1/2)" "[]" "[]" 0]
  unfolding seconds_of_of_seconds(1) by blast

text \<open>
  C2 as stated fails: a click at 2023-12-31 00:00:00 in the weekly view of the series that
  starts on 2024-01-01 gives the view \<^verbatim>\<open>'daily'\<close>, not \<^verbatim>\<open>'weekly'\<close>, with an empty chart.
\<close>

theorem out_of_span_selection_counterexample:
  "update_graph (df (const_rand (1/2))) [''chart.clickData''] (select (of_seconds (to_datetime 19722)) [])
      0
      ''weekly''
     = Inr (create_daily_chart (df (const_rand (1/2))) (date_of (to_datetime 19722)), ''daily'') \<and>
   ''daily'' \<noteq> ''weekly'' \<and>
   data_x (create_daily_chart (df (const_rand (1/2))) (date_of (to_datetime 19722))) = []"
  using out_of_span_views(1) [OF before_span, of "const_rand (1/2)"]
  by (simp add: update_graph_select seconds_of_of_seconds(1) del: update_graph.simps)

end
